theory Spec2Isabelle
  imports Main "HOL-Library.Sublist"
begin

section \<open>Python text primitives\<close>

text \<open>
  A Python \<open>str\<close> is modelled as a \<open>string\<close> holding its UTF-8 encoding, so ASCII text is
  one \<open>char\<close> per character. \<open>str.strip\<close> and \<open>str.lower\<close> are modelled on the ASCII
  range: the white space of \<open>str.isspace\<close> below 128 is the code points 9 to 13 and 28 to 32.
\<close>

definition NL :: char where
  "NL = CHR 0x0A"

definition isspace :: "char \<Rightarrow> bool" where
  "isspace c = (let n = (of_char c :: nat) in (9 \<le> n \<and> n \<le> 13) \<or> (28 \<le> n \<and> n \<le> 32))"

definition lstrip :: "string \<Rightarrow> string" where
  "lstrip s = dropWhile isspace s"

definition rstrip :: "string \<Rightarrow> string" where
  "rstrip s = rev (dropWhile isspace (rev s))"

definition strip :: "string \<Rightarrow> string" where
  "strip s = rstrip (lstrip s)"

definition lower_chr :: "char \<Rightarrow> char" where
  "lower_chr c = (let n = (of_char c :: nat) in if 65 \<le> n \<and> n \<le> 90 then char_of (n + 32) else c)"

definition lower :: "string \<Rightarrow> string" where
  "lower s = map lower_chr s"

text \<open>\<open>s.split(c)\<close> for a one-character separator: never empty, one more piece than
  there are separators.\<close>

fun split_chr :: "char \<Rightarrow> string \<Rightarrow> string list" where
  "split_chr c [] = [[]]"
| "split_chr c (x # xs) =
     (if x = c then [] # split_chr c xs
      else (case split_chr c xs of
              [] \<Rightarrow> [[x]]
            | piece # pieces \<Rightarrow> (x # piece) # pieces))"

text \<open>\<open>sep.join(xs)\<close>.\<close>

fun join :: "string \<Rightarrow> string list \<Rightarrow> string" where
  "join sep [] = []"
| "join sep [x] = x"
| "join sep (x # y # ys) = x @ sep @ join sep (y # ys)"

text \<open>\<open>sub in s\<close>, and \<open>s.split(sub)[0]\<close>: the text before the first occurrence of
  \<open>sub\<close> (all of \<open>s\<close> when there is none).\<close>

fun contains :: "string \<Rightarrow> string \<Rightarrow> bool" where
  "contains sub [] = (sub = [])"
| "contains sub (c # cs) = (prefix sub (c # cs) \<or> contains sub cs)"

fun before :: "string \<Rightarrow> string \<Rightarrow> string" where
  "before sub [] = []"
| "before sub (c # cs) = (if prefix sub (c # cs) then [] else c # before sub cs)"

text \<open>Truthiness of an optional string: \<open>None\<close> and the empty string are false.\<close>

fun truthy :: "string option \<Rightarrow> bool" where
  "truthy None = False"
| "truthy (Some s) = (s \<noteq> [])"

text \<open>\<open>d.get(key, default)\<close>.\<close>

definition dict_get :: "('k \<rightharpoonup> 'v) \<Rightarrow> 'k \<Rightarrow> 'v \<Rightarrow> 'v" where
  "dict_get d k dflt = (case d k of None \<Rightarrow> dflt | Some v \<Rightarrow> v)"

text \<open>Decimal rendering of an integer, as an f-string prints it.\<close>

fun str_nat :: "nat \<Rightarrow> string" where
  "str_nat n =
     (if n < 10 then [char_of (48 + n)]
      else str_nat (n div 10) @ [char_of (48 + n mod 10)])"

declare str_nat.simps [simp del]

definition str_int :: "int \<Rightarrow> string" where
  "str_int i = (if i < 0 then ''-'' @ str_nat (nat (- i)) else str_nat (nat i))"

section \<open>Exceptions\<close>

text \<open>
  Each exception carries the text \<open>str(e)\<close> gives. \<open>SMTPException\<close> and \<open>OSError\<close> are the
  two classes \<open>send_email\<close> catches; \<open>MailerError\<close>, \<open>ConfigError\<close> and \<open>ComposerError\<close>
  derive from \<open>Exception\<close> directly; \<open>OtherError\<close> stands for any other class.
\<close>

datatype exn =
    SMTPException string
  | OSError string
  | MailerError string
  | ConfigError string
  | ComposerError string
  | OtherError string

fun str_exn :: "exn \<Rightarrow> string" where
  "str_exn (SMTPException m) = m"
| "str_exn (OSError m) = m"
| "str_exn (MailerError m) = m"
| "str_exn (ConfigError m) = m"
| "str_exn (ComposerError m) = m"
| "str_exn (OtherError m) = m"

section \<open>config.py: servers, identities and secret resolution\<close>


definition DEFAULT_RETRIES :: int where
  "DEFAULT_RETRIES = 1"

record SmtpServer =
  smtp_name :: string
  smtp_host :: string
  smtp_ports :: "int list"
  smtp_user :: "string option"
  smtp_password :: "string option"
  smtp_password_cmd :: "string option"
  smtp_password_encoding :: string
  smtp_use_tls :: bool

text \<open>
  \<open>subprocess.run(cmd, shell=True, capture_output=True, text=True, timeout=t)\<close>: the shell is
  a function of the command and the timeout it is given. It completes with a return code,
  standard output and standard error, or the timeout expires, or the call raises.
\<close>

datatype proc_result =
    Completed int string string
  | TimeoutExpired
  | RunRaised exn

type_synonym shell = "string \<Rightarrow> nat \<Rightarrow> proc_result"

text \<open>
  \<open>base64.b64decode(s)\<close> with its default \<open>validate=False\<close>, for a \<open>str\<close> argument: the
  text must be ASCII, then \<open>binascii.a2b_base64\<close> runs in its non-strict mode. That loop
  skips every character outside the alphabet, counts a pad character only once two
  characters of a quad are in, and stops at a complete pad sequence. The state is the
  position in the quad, the bits left over, the pad count and the bytes written.
  The shifts of the C code never overlap, so they are written with sums.
\<close>

definition b64_value :: "char \<Rightarrow> nat option" where
  "b64_value c =
     (let n = (of_char c :: nat) in
      if 65 \<le> n \<and> n \<le> 90 then Some (n - 65)
      else if 97 \<le> n \<and> n \<le> 122 then Some (n - 71)
      else if 48 \<le> n \<and> n \<le> 57 then Some (n + 4)
      else if n = 43 then Some 62
      else if n = 47 then Some 63
      else None)"

fun a2b_base64 :: "string \<Rightarrow> nat \<Rightarrow> nat \<Rightarrow> nat \<Rightarrow> nat list \<Rightarrow> string + nat list" where
  "a2b_base64 [] quad_pos leftchar pads out =
     (if quad_pos \<noteq> 0 then
        (if quad_pos = 1 then
           Inl (''Invalid base64-encoded string: number of data characters ('' @
                str_nat (length out div 3 * 4 + 1) @
                '') cannot be 1 more than a multiple of 4'')
         else Inl ''Incorrect padding'')
      else Inr out)"
| "a2b_base64 (c # cs) quad_pos leftchar pads out =
     (if c = CHR ''='' then
        (if 2 \<le> quad_pos \<and> 4 \<le> quad_pos + (pads + 1) then Inr out
         else a2b_base64 cs quad_pos leftchar (if 2 \<le> quad_pos then pads + 1 else pads) out)
      else
        (case b64_value c of
           None \<Rightarrow> a2b_base64 cs quad_pos leftchar pads out
         | Some v \<Rightarrow>
             if quad_pos = 0 then a2b_base64 cs 1 v 0 out
             else if quad_pos = 1 then
               a2b_base64 cs 2 (v mod 16) 0 (out @ [leftchar * 4 + v div 16])
             else if quad_pos = 2 then
               a2b_base64 cs 3 (v mod 4) 0 (out @ [leftchar * 16 + v div 4])
             else a2b_base64 cs 0 0 0 (out @ [leftchar * 64 + v])))"

definition b64decode :: "string \<Rightarrow> string + nat list" where
  "b64decode s =
     (if \<exists>c \<in> set s. 128 \<le> (of_char c :: nat) then
        Inl ''string argument should contain only ASCII characters''
      else a2b_base64 s 0 0 0 [])"

text \<open>
  \<open>bytes.decode("utf-8")\<close>: the bytes must be well-formed UTF-8 (no overlong form, no
  surrogate, nothing above U+10FFFF); the text is then those same bytes. The codec's own
  error text is not modelled: a short description stands for it.
\<close>

definition utf8_cont :: "nat \<Rightarrow> bool" where
  "utf8_cont b = (128 \<le> b \<and> b \<le> 191)"

fun utf8_seq_len :: "nat list \<Rightarrow> nat option" where
  "utf8_seq_len [] = None"
| "utf8_seq_len (b # bs) =
     (if b < 128 then Some 1
      else if 194 \<le> b \<and> b \<le> 223 then
        (case bs of b1 # _ \<Rightarrow> if utf8_cont b1 then Some 2 else None | _ \<Rightarrow> None)
      else if 224 \<le> b \<and> b \<le> 239 then
        (case bs of
           b1 # b2 # _ \<Rightarrow>
             if utf8_cont b1 \<and> utf8_cont b2 \<and> (b = 224 \<longrightarrow> 160 \<le> b1) \<and> (b = 237 \<longrightarrow> b1 \<le> 159)
             then Some 3 else None
         | _ \<Rightarrow> None)
      else if 240 \<le> b \<and> b \<le> 244 then
        (case bs of
           b1 # b2 # b3 # _ \<Rightarrow>
             if utf8_cont b1 \<and> utf8_cont b2 \<and> utf8_cont b3 \<and>
                (b = 240 \<longrightarrow> 144 \<le> b1) \<and> (b = 244 \<longrightarrow> b1 \<le> 143)
             then Some 4 else None
         | _ \<Rightarrow> None)
      else None)"

fun utf8_valid :: "nat list \<Rightarrow> bool" where
  "utf8_valid [] = True"
| "utf8_valid (b # bs) =
     (case utf8_seq_len (b # bs) of
        None \<Rightarrow> False
      | Some n \<Rightarrow> utf8_valid (drop (n - 1) bs))"

definition decode_utf8 :: "nat list \<Rightarrow> string + string" where
  "decode_utf8 bs =
     (if utf8_valid bs then Inr (map char_of bs)
      else Inl ''invalid utf-8 data'')"

text \<open>\<open>SmtpServer.get_password\<close>. Quotes inside messages are written \<open>CHR 0x27\<close>.\<close>

definition quoted :: "string \<Rightarrow> string" where
  "quoted s = [CHR 0x27] @ s @ [CHR 0x27]"

definition get_password :: "shell \<Rightarrow> SmtpServer \<Rightarrow> exn + string option" where
  "get_password run self =
     (if truthy (smtp_password_cmd self) then
        (case run (the (smtp_password_cmd self)) 30 of
           Completed returncode out err \<Rightarrow>
             if returncode \<noteq> 0 then
               Inl (ConfigError (''Password command failed for SMTP '' @ quoted (smtp_name self) @
                                 '': '' @ strip err))
             else Inr (Some (strip out))
         | TimeoutExpired \<Rightarrow>
             Inl (ConfigError (''Password command timed out for SMTP '' @ quoted (smtp_name self)))
         | RunRaised e \<Rightarrow> Inl e)
      else if \<not> truthy (smtp_password self) then Inr None
      else if lower (smtp_password_encoding self) = ''base64'' then
        (case b64decode (the (smtp_password self)) of
           Inl e \<Rightarrow>
             Inl (ConfigError (''Failed to decode base64 password for SMTP '' @
                               quoted (smtp_name self) @ '': '' @ e))
         | Inr bs \<Rightarrow>
             (case decode_utf8 bs of
                Inl e \<Rightarrow>
                  Inl (ConfigError (''Failed to decode base64 password for SMTP '' @
                                    quoted (smtp_name self) @ '': '' @ e))
              | Inr text \<Rightarrow> Inr (Some text)))
      else Inr (smtp_password self))"

record Identity =
  ident_name :: string
  ident_email :: string
  ident_display_name :: string
  ident_smtp_server :: string
  ident_reply_to :: "string list"

text \<open>The constructor with \<open>__post_init__\<close>: an empty reply-to list becomes \<open>[email]\<close>.\<close>

definition Identity_init :: "string \<Rightarrow> string \<Rightarrow> string \<Rightarrow> string \<Rightarrow> string list \<Rightarrow> Identity" where
  "Identity_init name email display_name smtp_server reply_to =
     \<lparr> ident_name = name, ident_email = email, ident_display_name = display_name,
       ident_smtp_server = smtp_server,
       ident_reply_to = (if reply_to = [] then [email] else reply_to) \<rparr>"

record Defaults =
  dflt_retries :: int
  dflt_interactive :: bool
  dflt_skip_confirmation :: bool
  dflt_default_identity :: "string option"

record Config =
  cfg_defaults :: Defaults
  cfg_smtp_servers :: "SmtpServer list"
  cfg_identities :: "Identity list"

definition get_identity :: "Config \<Rightarrow> string \<Rightarrow> Identity option" where
  "get_identity self name =
     find (\<lambda>identity. lower (ident_name identity) = lower name) (cfg_identities self)"

definition get_default_identity :: "Config \<Rightarrow> Identity option" where
  "get_default_identity self =
     (case (if truthy (dflt_default_identity (cfg_defaults self))
            then get_identity self (the (dflt_default_identity (cfg_defaults self)))
            else None) of
        Some identity \<Rightarrow> Some identity
      | None \<Rightarrow> (case cfg_identities self of [] \<Rightarrow> None | i # _ \<Rightarrow> Some i))"







definition or_default :: "'a option \<Rightarrow> 'a \<Rightarrow> 'a" where
  "or_default v dflt = (case v of None \<Rightarrow> dflt | Some x \<Rightarrow> x)"






section \<open>composer.py: the template parser\<close>

record ComposedEmail =
  ce_to :: "string list"
  ce_cc :: "string list"
  ce_bcc :: "string list"
  ce_from_addr :: string
  ce_from_name :: "string option"
  ce_reply_to :: "string option"
  ce_subject :: string
  ce_body :: string
  ce_cancelled :: bool

definition TEMPLATE_SEPARATOR :: string where
  "TEMPLATE_SEPARATOR = ''---''"

text \<open>The search loop of \<open>parse_template\<close>: the index of the first line that strips to the
  separator, \<open>None\<close> for the source's \<open>-1\<close>.\<close>

fun find_separator :: "string list \<Rightarrow> nat option" where
  "find_separator [] = None"
| "find_separator (l # ls) =
     (if strip l = TEMPLATE_SEPARATOR then Some 0
      else map_option Suc (find_separator ls))"

text \<open>One round of the header loop, on the dictionary \<open>headers\<close>.
  \<open>line.split(":", 1)\<close> is the text before the first colon and the text after it.\<close>

definition parse_header_line :: "(string \<rightharpoonup> string) \<Rightarrow> string \<Rightarrow> (string \<rightharpoonup> string)" where
  "parse_header_line headers raw =
     (let line = strip raw in
      if line = [] \<or> prefix ''#'' line then headers
      else if CHR '':'' \<in> set line then
        (let key = lower (strip (takeWhile (\<lambda>c. c \<noteq> CHR '':'') line));
             value0 = strip (tl (dropWhile (\<lambda>c. c \<noteq> CHR '':'') line));
             value = (if contains ''  #'' value0 then strip (before ''  #'' value0) else value0)
         in (case headers key of
               Some old \<Rightarrow>
                 if old \<noteq> [] then headers(key \<mapsto> old @ '', '' @ value)
                 else headers(key \<mapsto> value)
             | None \<Rightarrow> headers(key \<mapsto> value)))
      else headers)"

definition parse_headers :: "string list \<Rightarrow> (string \<rightharpoonup> string)" where
  "parse_headers header_lines = foldl parse_header_line Map.empty header_lines"

text \<open>The comprehension \<open>[addr.strip() for addr in s.split(",") if addr.strip()]\<close>, which
  the source writes out for To, Cc and Bcc.\<close>

definition addr_list :: "string \<Rightarrow> string list" where
  "addr_list s = filter (\<lambda>a. a \<noteq> []) (map strip (split_chr (CHR '','') s))"

text \<open>The From value: \<open>(from_name, from_addr)\<close>.\<close>

definition parse_from :: "string \<Rightarrow> string option \<times> string" where
  "parse_from from_raw =
     (if CHR ''<'' \<in> set from_raw \<and> CHR ''>'' \<in> set from_raw then
        (let parts = split_chr (CHR ''<'') from_raw in
         (if strip (parts ! 0) \<noteq> [] then Some (strip (parts ! 0)) else None,
          strip (hd (split_chr (CHR ''>'') (parts ! 1)))))
      else (None, from_raw))"

definition missing_separator_message :: string where
  "missing_separator_message =
     ''Template missing separator line ('' @ [CHR 0x27] @ TEMPLATE_SEPARATOR @ [CHR 0x27] @
     ''). Please keep the separator between headers and body.''"

definition parse_template :: "string \<Rightarrow> exn + ComposedEmail" where
  "parse_template content =
     (let lines = split_chr NL content in
      case find_separator lines of
        None \<Rightarrow> Inl (ComposerError missing_separator_message)
      | Some separator_idx \<Rightarrow>
          (let header_lines = take separator_idx lines;
               body_lines = drop (separator_idx + 1) lines;
               headers = parse_headers header_lines;
               from_raw = dict_get headers ''from'' [];
               reply_to_raw0 = dict_get headers ''reply-to'' [];
               reply_to_raw =
                 (if contains ''  #'' reply_to_raw0 then strip (before ''  #'' reply_to_raw0)
                  else reply_to_raw0)
           in Inr \<lparr> ce_to = addr_list (dict_get headers ''to'' []),
                    ce_cc = addr_list (dict_get headers ''cc'' []),
                    ce_bcc = addr_list (dict_get headers ''bcc'' []),
                    ce_from_addr = snd (parse_from from_raw),
                    ce_from_name = fst (parse_from from_raw),
                    ce_reply_to = (if reply_to_raw \<noteq> [] then Some reply_to_raw else None),
                    ce_subject = dict_get headers ''subject'' [],
                    ce_body = strip (join [NL] body_lines),
                    ce_cancelled = False \<rparr>))"

section \<open>composer.py: the template generator\<close>

definition HEADER_INSTRUCTIONS :: string where
  "HEADER_INSTRUCTIONS = join [NL]
     [''# Terminal Mail - Email Composer'',
      ''# Lines starting with '' @ quoted ''#'' @ '' are comments and will be ignored.'',
      ''# Edit the headers and body below, then save and exit.'',
      ''#'',
      ''# FROM IDENTITY: Uncomment ONE line to select your sending identity.'',
      ''# DISPLAY NAME: Edit the name portion to customize (e.g., \"Custom Name <email>\").'',
      ''# REPLY-TO: Uncomment ONE line to select the reply-to address.'']"

text \<open>The box-drawing characters of the menu frames, as their UTF-8 bytes.\<close>

definition box :: "nat \<Rightarrow> string" where
  "box n = [CHR 0xE2, CHR 0x94, char_of n]"

definition box_line :: "nat \<Rightarrow> string" where
  "box_line k = concat (replicate k (box 0x80))"

definition FROM_OPEN :: string where
  "FROM_OPEN = ''# '' @ box 0x8C @ box_line 3 @ '' FROM IDENTITY (select one) '' @ box_line 3 @ box 0x90"

definition FROM_CLOSE :: string where
  "FROM_CLOSE = ''# '' @ box 0x94 @ box_line 36 @ box 0x98"

definition REPLY_TO_OPEN :: "string \<Rightarrow> string" where
  "REPLY_TO_OPEN name =
     ''# '' @ box 0x8C @ box_line 3 @ '' REPLY-TO for ['' @ name @ ''] (select one) '' @
     box_line 3 @ box 0x90"

definition REPLY_TO_CLOSE :: string where
  "REPLY_TO_CLOSE = ''# '' @ box 0x94 @ box_line 46 @ box 0x98"

text \<open>The selected identity: the named one if it resolves, else the default one.\<close>

definition select_identity :: "Config \<Rightarrow> string option \<Rightarrow> Identity option" where
  "select_identity config identity_name =
     (let selected_identity =
            (if truthy identity_name then get_identity config (the identity_name) else None)
      in if selected_identity = None \<and> cfg_identities config \<noteq> []
         then get_default_identity config
         else selected_identity)"

text \<open>One round of the From loop. The test \<open>identity == selected_identity\<close> is the
  dataclass equality, field by field.\<close>

definition from_line :: "Identity option \<Rightarrow> string option \<Rightarrow> Identity \<Rightarrow> string" where
  "from_line selected_identity custom_display_name identity =
     (let is_selected = (Some identity = selected_identity);
          pfx = (if is_selected then [] else ''#'');
          display_name = (if is_selected \<and> truthy custom_display_name
                          then the custom_display_name
                          else ident_display_name identity);
          from_value = (if display_name \<noteq> []
                        then display_name @ '' <'' @ ident_email identity @ ''>''
                        else ident_email identity)
      in pfx @ ''From: '' @ from_value @ ''  # ['' @ ident_name identity @ '']'')"

text \<open>One round of the Reply-To loop, and the whole Reply-To section.\<close>

definition reply_to_line :: "string \<Rightarrow> string \<Rightarrow> string" where
  "reply_to_line effective_reply_to rt =
     (let is_selected = (rt = effective_reply_to);
          pfx = (if is_selected then [] else ''#'')
      in pfx @ ''Reply-To: '' @ rt)"

definition reply_to_section :: "Identity option \<Rightarrow> string option \<Rightarrow> string list" where
  "reply_to_section selected_identity reply_to =
     (case selected_identity of
        None \<Rightarrow> []
      | Some sel \<Rightarrow>
          if ident_reply_to sel = [] then []
          else
            (let effective_reply_to =
                   (if truthy reply_to then the reply_to else hd (ident_reply_to sel))
             in [REPLY_TO_OPEN (ident_name sel)] @
                map (reply_to_line effective_reply_to) (ident_reply_to sel) @
                [REPLY_TO_CLOSE, []]))"

definition template_lines ::
  "Config \<Rightarrow> string list option \<Rightarrow> string list option \<Rightarrow> string list option \<Rightarrow>
   string option \<Rightarrow> string option \<Rightarrow> string option \<Rightarrow> string option \<Rightarrow> string option \<Rightarrow>
   string list" where
  "template_lines config recipients cc bcc identity_name reply_to subject body custom_display_name =
     (let identities = cfg_identities config;
          selected_identity = select_identity config identity_name
      in [HEADER_INSTRUCTIONS, []] @
         [FROM_OPEN] @
         map (from_line selected_identity custom_display_name) identities @
         [FROM_CLOSE, []] @
         reply_to_section selected_identity reply_to @
         [''To: '' @ join '', '' (or_default recipients []),
          ''Cc: '' @ join '', '' (or_default cc []),
          ''Bcc: '' @ join '', '' (or_default bcc []),
          ''Subject: '' @ or_default subject [],
          [],
          TEMPLATE_SEPARATOR,
          [],
          (if truthy body then the body else [])])"

definition generate_template ::
  "Config \<Rightarrow> string list option \<Rightarrow> string list option \<Rightarrow> string list option \<Rightarrow>
   string option \<Rightarrow> string option \<Rightarrow> string option \<Rightarrow> string option \<Rightarrow> string option \<Rightarrow>
   string" where
  "generate_template config recipients cc bcc identity_name reply_to subject body custom_display_name =
     join [NL] (template_lines config recipients cc bcc identity_name reply_to subject body
                  custom_display_name)"

section \<open>composer.py: the editing session\<close>

text \<open>
  What the outside world does during one call of \<open>compose_interactively\<close>: creating and
  writing the temporary file, the two \<open>stat\<close> calls (the modification time is only compared for
  equality, so its type \<open>'t\<close> is left open), the editor process,
  and reading the file back. Removing the file in the \<open>finally\<close> block raises only
  \<open>OSError\<close>, which is swallowed there, so it has no part in the result.
\<close>

record 't edit_session =
  es_tempfile :: "string \<Rightarrow> exn option"
  es_mtime_before :: "exn + 't"
  es_editor :: "exn + int"
  es_mtime_after :: "exn + 't"
  es_read_text :: "exn + string"

definition cancelled_email :: ComposedEmail where
  "cancelled_email =
     \<lparr> ce_to = [], ce_cc = [], ce_bcc = [], ce_from_addr = [], ce_from_name = None,
       ce_reply_to = None, ce_subject = [], ce_body = [], ce_cancelled = True \<rparr>"

definition compose_interactively ::
  "'t edit_session \<Rightarrow> Config \<Rightarrow> string list option \<Rightarrow> string list option \<Rightarrow> string list option \<Rightarrow>
   string option \<Rightarrow> string option \<Rightarrow> string option \<Rightarrow> string option \<Rightarrow> string option \<Rightarrow>
   exn + ComposedEmail" where
  "compose_interactively w config recipients cc bcc identity_name reply_to subject body
     custom_display_name =
     (let template = generate_template config recipients cc bcc identity_name reply_to subject
                       body custom_display_name
      in case es_tempfile w template of
           Some e \<Rightarrow> Inl e
         | None \<Rightarrow>
             (case es_mtime_before w of
                Inl e \<Rightarrow> Inl e
              | Inr mtime_before \<Rightarrow>
                  (case es_editor w of
                     Inl e \<Rightarrow> Inl e
                   | Inr returncode \<Rightarrow>
                       if returncode \<noteq> 0 then
                         Inl (ComposerError (''Editor exited with code '' @ str_int returncode))
                       else
                         (case es_mtime_after w of
                            Inl e \<Rightarrow> Inl e
                          | Inr mtime_after \<Rightarrow>
                              if mtime_after = mtime_before then Inr cancelled_email
                              else
                                (case es_read_text w of
                                   Inl e \<Rightarrow> Inl e
                                 | Inr content \<Rightarrow> parse_template content)))))"

section \<open>message.py: validation\<close>

record EmailData =
  ed_to :: "string list"
  ed_cc :: "string list"
  ed_bcc :: "string list"
  ed_from_addr :: string
  ed_from_name :: "string option"
  ed_reply_to :: "string option"
  ed_subject :: string
  ed_body :: string
  ed_attachments :: "string list"

text \<open>The file system as \<open>validate\<close> sees it: what a path resolves to, if anything.
  \<open>Path.exists\<close> and \<open>Path.is_file\<close> read it.\<close>

datatype node = RegularFile | Directory | OtherNode

type_synonym filesystem = "string \<Rightarrow> node option"

definition path_exists :: "filesystem \<Rightarrow> string \<Rightarrow> bool" where
  "path_exists fs p = (fs p \<noteq> None)"

definition is_file :: "filesystem \<Rightarrow> string \<Rightarrow> bool" where
  "is_file fs p = (fs p = Some RegularFile)"

text \<open>One round of the attachment loop of \<open>validate\<close>, on the list \<open>errors\<close>.\<close>

definition check_attachment :: "filesystem \<Rightarrow> string list \<Rightarrow> string \<Rightarrow> string list" where
  "check_attachment fs errors attachment =
     (if \<not> path_exists fs attachment then errors @ [''Attachment not found: '' @ attachment]
      else if \<not> is_file fs attachment then errors @ [''Attachment is not a file: '' @ attachment]
      else errors)"

definition validate :: "filesystem \<Rightarrow> EmailData \<Rightarrow> string list" where
  "validate fs self =
     (let errors = [];
          errors = (if ed_to self = [] then errors @ [''No recipients specified''] else errors);
          errors = (if ed_from_addr self = [] then errors @ [''No from address specified'']
                    else errors)
      in foldl (check_attachment fs) errors (ed_attachments self))"

section \<open>mailer.py: the delivery engine\<close>

record SendResult =
  sr_success :: bool
  sr_message :: string
  sr_attempts :: int
  sr_smtp_response :: "string option"

text \<open>
  What the server and the network do during one connection cycle, call by call:
  opening the connection (\<open>SMTP_SSL\<close> or \<open>SMTP\<close>), \<open>starttls\<close>, \<open>login\<close>, \<open>sendmail\<close>
  (which raises or returns the dictionary of refused recipients, here in insertion order),
  \<open>noop\<close> (whose reply is kept as printed) and \<open>quit\<close>.
\<close>

record smtp_session =
  ss_connect :: "exn option"
  ss_starttls :: "exn option"
  ss_login :: "exn option"
  ss_sendmail :: "exn + (string \<times> string) list"
  ss_noop :: "exn + string"
  ss_quit :: "exn option"

text \<open>The \<open>try\<close> block of \<open>_send_via_smtp\<close>; \<open>msg_from\<close> is \<open>msg["From"]\<close>.\<close>

definition smtp_transaction ::
  "string option \<Rightarrow> string option \<Rightarrow> string option \<Rightarrow> smtp_session \<Rightarrow> exn + string" where
  "smtp_transaction msg_from username password s =
     (case (if truthy username \<and> truthy password then ss_login s else None) of
        Some e \<Rightarrow> Inl e
      | None \<Rightarrow>
          if \<not> truthy msg_from then Inl (MailerError ''Message has no From header'')
          else
            (case ss_sendmail s of
               Inl e \<Rightarrow> Inl e
             | Inr refused \<Rightarrow>
                 if refused \<noteq> [] then
                   Inl (MailerError (''Some recipients were refused: '' @
                                     join '', '' (map fst refused)))
                 else
                   (case ss_noop s of
                      Inl e \<Rightarrow> Inl e
                    | Inr response \<Rightarrow> Inr (''250 OK (server response: '' @ response @ '')''))))"

text \<open>The \<open>finally\<close> block: \<open>quit\<close> is called; an \<open>SMTPException\<close> from it is swallowed,
  any other exception from it replaces the outcome of the \<open>try\<close> block.\<close>

definition finally_quit :: "smtp_session \<Rightarrow> exn + string \<Rightarrow> exn + string" where
  "finally_quit s r =
     (case ss_quit s of
        None \<Rightarrow> r
      | Some (SMTPException m) \<Rightarrow> r
      | Some e \<Rightarrow> Inl e)"

text \<open>\<open>_send_via_smtp\<close> (Isabelle names cannot start with an underscore). The host and
  the verbose flag only reach the library and the printed output.\<close>

definition send_via_smtp ::
  "string option \<Rightarrow> int \<Rightarrow> string option \<Rightarrow> string option \<Rightarrow> bool \<Rightarrow> smtp_session \<Rightarrow> exn + string" where
  "send_via_smtp msg_from port username password use_tls s =
     (case ss_connect s of
        Some e \<Rightarrow> Inl e
      | None \<Rightarrow>
          (case (if port \<noteq> 465 \<and> use_tls then ss_starttls s else None) of
             Some e \<Rightarrow> Inl e
           | None \<Rightarrow> finally_quit s (smtp_transaction msg_from username password s)))"

text \<open>\<open>except (smtplib.SMTPException, OSError)\<close>.\<close>

fun caught :: "exn \<Rightarrow> bool" where
  "caught (SMTPException m) = True"
| "caught (OSError m) = True"
| "caught e = False"

text \<open>
  The state of \<open>send_email\<close>: the slot \<open>last_error\<close>, the counter \<open>attempts\<close>, and a log of
  what the call did to the outside world, a connection cycle on a port or a sleep of so
  many seconds. The network gives the session of the cycle at each attempt and each
  position of the port list.
\<close>

datatype event = Cycle int | Sleep int

record send_state =
  st_last_error :: "exn option"
  st_attempts :: int
  st_log :: "event list"

datatype outcome = Returned SendResult | Raised exn

type_synonym network = "nat \<Rightarrow> nat \<Rightarrow> smtp_session"

text \<open>The inner loop over the ports, from position \<open>i\<close> on: \<open>Some\<close> when the function
  returns or raises inside the loop, \<open>None\<close> when the loop runs to its end.\<close>

fun port_loop ::
  "(nat \<Rightarrow> smtp_session) \<Rightarrow> string option \<Rightarrow> SmtpServer \<Rightarrow> string option \<Rightarrow> nat \<Rightarrow> int list \<Rightarrow>
   send_state \<Rightarrow> outcome option \<times> send_state" where
  "port_loop net msg_from smtp_server password i [] st = (None, st)"
| "port_loop net msg_from smtp_server password i (port # ports) st =
     (let st = st\<lparr>st_log := st_log st @ [Cycle port]\<rparr> in
      case send_via_smtp msg_from port (smtp_user smtp_server) password
             (smtp_use_tls smtp_server) (net i) of
        Inr response \<Rightarrow>
          (Some (Returned \<lparr> sr_success = True,
                            sr_message = ''Email sent successfully via '' @
                                         smtp_host smtp_server @ '':'' @ str_int port,
                            sr_attempts = st_attempts st,
                            sr_smtp_response = Some response \<rparr>), st)
      | Inl e \<Rightarrow>
          if caught e then
            port_loop net msg_from smtp_server password (Suc i) ports (st\<lparr>st_last_error := Some e\<rparr>)
          else (Some (Raised e), st))"

text \<open>The outer loop over \<open>range(retries + 1)\<close>.\<close>

fun attempt_loop ::
  "network \<Rightarrow> string option \<Rightarrow> SmtpServer \<Rightarrow> string option \<Rightarrow> int \<Rightarrow> nat list \<Rightarrow>
   send_state \<Rightarrow> outcome option \<times> send_state" where
  "attempt_loop net msg_from smtp_server password retries [] st = (None, st)"
| "attempt_loop net msg_from smtp_server password retries (attempt # rest) st =
     (let st = st\<lparr>st_attempts := int attempt + 1\<rparr> in
      case port_loop (net attempt) msg_from smtp_server password 0 (smtp_ports smtp_server) st of
        (Some r, st) \<Rightarrow> (Some r, st)
      | (None, st) \<Rightarrow>
          (let st = (if int attempt < retries
                     then st\<lparr>st_log := st_log st @ [Sleep (2 ^ attempt)]\<rparr>
                     else st)
           in attempt_loop net msg_from smtp_server password retries rest st))"

definition send_email ::
  "shell \<Rightarrow> network \<Rightarrow> string option \<Rightarrow> SmtpServer \<Rightarrow> int \<Rightarrow> outcome \<times> event list" where
  "send_email run net msg_from smtp_server retries =
     (case get_password run smtp_server of
        Inl e \<Rightarrow> (Raised e, [])
      | Inr password \<Rightarrow>
          (case attempt_loop net msg_from smtp_server password retries
                  [0 ..< nat (retries + 1)]
                  \<lparr> st_last_error = None, st_attempts = 0, st_log = [] \<rparr> of
             (Some r, st) \<Rightarrow> (r, st_log st)
           | (None, st) \<Rightarrow>
               (let error_msg = (case st_last_error st of
                                   Some e \<Rightarrow> str_exn e
                                 | None \<Rightarrow> ''Unknown error'')
                in (Returned \<lparr> sr_success = False,
                               sr_message = ''Failed to send email after '' @
                                            str_int (st_attempts st) @
                                            '' attempt(s): '' @ error_msg,
                               sr_attempts = st_attempts st,
                               sr_smtp_response = None \<rparr>,
                    st_log st))))"

text \<open>
  Reading the log. \<open>attempt_events\<close> is what one outer attempt in which every port fails
  leaves in the log: a cycle on each port, in order, then the back-off sleep if another
  attempt remains. \<open>total_wait\<close> adds up the sleeps of a log.
\<close>

definition attempt_events :: "int list \<Rightarrow> int \<Rightarrow> nat \<Rightarrow> event list" where
  "attempt_events ports retries a =
     map Cycle ports @ (if int a < retries then [Sleep (2 ^ a)] else [])"

fun wait_of :: "event \<Rightarrow> int" where
  "wait_of (Sleep t) = t"
| "wait_of (Cycle port) = 0"

definition total_wait :: "event list \<Rightarrow> int" where
  "total_wait log = sum_list (map wait_of log)"

section \<open>Lines of a template, as the parser sees them\<close>



section \<open>Concrete inputs for the examples\<close>

definition demo_session :: "nat edit_session" where
  "demo_session =
     \<lparr> es_tempfile = (\<lambda>text. None), es_mtime_before = Inr 1700000000, es_editor = Inr 0,
       es_mtime_after = Inr 1700000000, es_read_text = Inr ''edited'' \<rparr>"

definition demo_fs :: filesystem where
  "demo_fs = (\<lambda>p. if p = ''/tmp/a.txt'' then Some RegularFile
                   else if p = ''/tmp'' then Some Directory else None)"

text \<open>\<open>create_empty_config\<close>.\<close>

definition create_empty_config :: Config where
  "create_empty_config =
     \<lparr> cfg_defaults = \<lparr> dflt_retries = DEFAULT_RETRIES, dflt_interactive = True,
                        dflt_skip_confirmation = False, dflt_default_identity = None \<rparr>,
       cfg_smtp_servers = [], cfg_identities = [] \<rparr>"

definition plain_server :: SmtpServer where
  "plain_server =
     \<lparr> smtp_name = ''test'', smtp_host = ''smtp.example.com'', smtp_ports = [587, 465],
       smtp_user = Some ''sender@example.com'', smtp_password = Some ''secret123'',
       smtp_password_cmd = None, smtp_password_encoding = ''plain'', smtp_use_tls = True \<rparr>"

definition no_shell :: shell where
  "no_shell = (\<lambda>cmd t. RunRaised (OSError ''no shell''))"

definition ok_session :: smtp_session where
  "ok_session =
     \<lparr> ss_connect = None, ss_starttls = None, ss_login = None, ss_sendmail = Inr [],
       ss_noop = Inr (''(250, b'' @ quoted ''OK'' @ '')''), ss_quit = None \<rparr>"


definition down_session :: smtp_session where
  "down_session = ok_session\<lparr>ss_connect := Some (OSError ''Connection refused'')\<rparr>"



definition down_net :: network where
  "down_net = (\<lambda>a i. down_session)"





definition sample_config :: Config where
  "sample_config =
     \<lparr> cfg_defaults = \<lparr> dflt_retries = DEFAULT_RETRIES, dflt_interactive = True,
                        dflt_skip_confirmation = False,
                        dflt_default_identity = Some ''Personal Email'' \<rparr>,
       cfg_smtp_servers = [plain_server],
       cfg_identities =
         [Identity_init ''Personal Email'' ''user@example.com'' ''Test User'' ''test''
            [''user@example.com'', ''alias@example.com''],
          Identity_init ''Work Email'' ''work@company.com'' [] ''test'' []] \<rparr>"

definition personal :: Identity where
  "personal =
     \<lparr> ident_name = ''Personal Email'', ident_email = ''user@example.com'',
       ident_display_name = ''Test User'', ident_smtp_server = ''test'',
       ident_reply_to = [''user@example.com'', ''alias@example.com''] \<rparr>"

section \<open>The template parser fails only for a missing separator\<close>




section \<open>Cancellation\<close>

lemma parse_template_cancelled_False:
  "parse_template content = Inr e \<Longrightarrow> \<not> ce_cancelled e"
  by (auto simp: parse_template_def Let_def split: option.splits)

lemma compose_interactively_cases:
  "compose_interactively w config recipients cc bcc identity_name reply_to subject body custom
     = Inr e \<Longrightarrow>
   es_editor w = Inr 0 \<and>
   ((\<exists>t. es_mtime_before w = Inr t \<and> es_mtime_after w = Inr t) \<and> e = cancelled_email \<or>
    (\<exists>content. es_read_text w = Inr content \<and> parse_template content = Inr e))"
  by (auto simp: compose_interactively_def Let_def split: option.splits sum.splits if_splits)

text \<open>
  C9: in an editing session where the temporary file was written, both \<open>stat\<close> calls gave
  the same modification time and the editor exited with code 0, \<open>compose_interactively\<close>
  raises nothing and returns the \<open>ComposedEmail\<close> with the cancellation flag set, empty
  address lists, empty from address, subject and body, and no display name or reply-to.
\<close>

theorem unmodified_session_is_cancelled:
  assumes "es_tempfile w (generate_template config recipients cc bcc identity_name reply_to
             subject body custom) = None"
    and "es_mtime_before w = Inr t"
    and "es_editor w = Inr 0"
    and "es_mtime_after w = Inr t"
  shows "compose_interactively w config recipients cc bcc identity_name reply_to subject body custom
           = Inr \<lparr> ce_to = [], ce_cc = [], ce_bcc = [], ce_from_addr = [], ce_from_name = None,
                   ce_reply_to = None, ce_subject = [], ce_body = [], ce_cancelled = True \<rparr>"
  using assms by (simp add: compose_interactively_def cancelled_email_def)

theorem unmodified_session_is_cancelled_witness:
  "compose_interactively demo_session create_empty_config None None None None None None None None
     = Inr \<lparr> ce_to = [], ce_cc = [], ce_bcc = [], ce_from_addr = [], ce_from_name = None,
             ce_reply_to = None, ce_subject = [], ce_body = [], ce_cancelled = True \<rparr>"
  using unmodified_session_is_cancelled [of demo_session create_empty_config None None None None
      None None None None 1700000000]
  by (simp add: demo_session_def)

text \<open>
  C10: a \<open>ComposedEmail\<close> that \<open>parse_template\<close> returns has its cancellation flag unset;
  and when \<open>compose_interactively\<close> returns one with the flag set, the editor exited with
  code 0 and the two modification times were equal, that is, it came from the
  unmodified-file path and not from the parser.
\<close>

theorem cancelled_only_from_unmodified_session:
  "(parse_template content = Inr e \<longrightarrow> \<not> ce_cancelled e) \<and>
   (compose_interactively w config recipients cc bcc identity_name reply_to subject body custom
      = Inr e' \<and> ce_cancelled e' \<longrightarrow>
    es_editor w = Inr 0 \<and> (\<exists>t. es_mtime_before w = Inr t \<and> es_mtime_after w = Inr t))"
  using parse_template_cancelled_False [of content e]
    compose_interactively_cases [of w config recipients cc bcc identity_name reply_to subject body
      custom e']
    parse_template_cancelled_False [of _ e']
  by blast

theorem cancelled_only_from_unmodified_session_witness:
  "parse_template (''Subject: x'' @ [NL] @ ''---'' @ [NL] @ ''hi'')
     = Inr \<lparr> ce_to = [], ce_cc = [], ce_bcc = [], ce_from_addr = [], ce_from_name = None,
             ce_reply_to = None, ce_subject = ''x'', ce_body = ''hi'', ce_cancelled = False \<rparr> \<and>
   compose_interactively demo_session create_empty_config None None None None None None None None
     = Inr cancelled_email \<and>
   ce_cancelled cancelled_email \<and>
   es_editor demo_session = Inr 0 \<and>
   (\<exists>t. es_mtime_before demo_session = Inr t \<and> es_mtime_after demo_session = Inr t)"
proof -
  have p: "parse_template (''Subject: x'' @ [NL] @ ''---'' @ [NL] @ ''hi'')
     = Inr \<lparr> ce_to = [], ce_cc = [], ce_bcc = [], ce_from_addr = [], ce_from_name = None,
             ce_reply_to = None, ce_subject = ''x'', ce_body = ''hi'', ce_cancelled = False \<rparr>"
    by (simp add: parse_template_def parse_headers_def parse_header_line_def parse_from_def
        addr_list_def dict_get_def NL_def strip_def lstrip_def rstrip_def isspace_def TEMPLATE_SEPARATOR_def
        lower_def lower_chr_def Let_def char_of_def bit_Suc_0_iff)
  have c: "compose_interactively demo_session create_empty_config None None None None None None
             None None = Inr cancelled_email"
    by (simp add: compose_interactively_def demo_session_def)
  have f: "ce_cancelled cancelled_email"
    by (simp add: cancelled_email_def)
  show ?thesis
    using p c f
      cancelled_only_from_unmodified_session [of "''Subject: x'' @ [NL] @ ''---'' @ [NL] @ ''hi''"
        "\<lparr> ce_to = [], ce_cc = [], ce_bcc = [], ce_from_addr = [], ce_from_name = None,
           ce_reply_to = None, ce_subject = ''x'', ce_body = ''hi'', ce_cancelled = False \<rparr>"
        demo_session create_empty_config None None None None None None None None cancelled_email]
    by simp
qed

section \<open>Validation\<close>

lemma check_attachment_append:
  "check_attachment fs errors p = errors @ check_attachment fs [] p"
  by (simp add: check_attachment_def)

lemma foldl_check_attachment:
  "foldl (check_attachment fs) errors ps = errors @ concat (map (check_attachment fs []) ps)"
proof (induction ps arbitrary: errors)
  case Nil
  show ?case by simp
next
  case (Cons p ps)
  have "foldl (check_attachment fs) errors (p # ps) =
        foldl (check_attachment fs) (errors @ check_attachment fs [] p) ps"
    using check_attachment_append [of fs errors p] by simp
  then show ?case by (simp add: Cons.IH)
qed

lemma validate_eq:
  "validate fs d =
     (if ed_to d = [] then [''No recipients specified''] else []) @
     (if ed_from_addr d = [] then [''No from address specified''] else []) @
     concat (map (check_attachment fs []) (ed_attachments d))"
  by (simp add: validate_def foldl_check_attachment)

lemma check_attachment_Nil_iff:
  "check_attachment fs [] p = [] \<longleftrightarrow> fs p = Some RegularFile"
  by (simp add: check_attachment_def path_exists_def is_file_def)

lemma length_check_attachment:
  "length (check_attachment fs [] p) = (if fs p = Some RegularFile then 0 else 1)"
  by (simp add: check_attachment_def path_exists_def is_file_def)

lemma length_concat_check:
  "length (concat (map (check_attachment fs []) ps)) =
   length (filter (\<lambda>p. fs p \<noteq> Some RegularFile) ps)"
  by (induction ps) (simp_all add: length_check_attachment)

text \<open>
  C8: \<open>validate\<close> returns the empty list exactly when the To list is not empty (the
  recipients that the message "No recipients specified" is about), the from address is
  not empty, and every attachment path exists and is a regular file. Otherwise each
  violated condition has its own entry: the list holds the entry of an empty To list, the
  entry of an empty from address, and for every attachment that is missing or is not a
  regular file the entry naming it; its length is the number of violated conditions.
\<close>

theorem validate_empty_iff:
  "(validate fs d = [] \<longleftrightarrow>
      ed_to d \<noteq> [] \<and> ed_from_addr d \<noteq> [] \<and>
      (\<forall>p \<in> set (ed_attachments d). path_exists fs p \<and> is_file fs p)) \<and>
   (ed_to d = [] \<longrightarrow> ''No recipients specified'' \<in> set (validate fs d)) \<and>
   (ed_from_addr d = [] \<longrightarrow> ''No from address specified'' \<in> set (validate fs d)) \<and>
   (\<forall>p \<in> set (ed_attachments d).
      (\<not> path_exists fs p \<longrightarrow> ''Attachment not found: '' @ p \<in> set (validate fs d)) \<and>
      (path_exists fs p \<and> \<not> is_file fs p \<longrightarrow>
         ''Attachment is not a file: '' @ p \<in> set (validate fs d))) \<and>
   length (validate fs d) =
     (if ed_to d = [] then 1 else 0) + (if ed_from_addr d = [] then 1 else 0) +
     length (filter (\<lambda>p. \<not> (path_exists fs p \<and> is_file fs p)) (ed_attachments d))"
proof -
  have ok: "\<And>p. (path_exists fs p \<and> is_file fs p) = (fs p = Some RegularFile)"
    by (auto simp: path_exists_def is_file_def)
  have a: "validate fs d = [] \<longleftrightarrow>
      ed_to d \<noteq> [] \<and> ed_from_addr d \<noteq> [] \<and>
      (\<forall>p \<in> set (ed_attachments d). path_exists fs p \<and> is_file fs p)"
    by (simp add: validate_eq check_attachment_Nil_iff ok)
  have b: "ed_to d = [] \<longrightarrow> ''No recipients specified'' \<in> set (validate fs d)"
    by (simp add: validate_eq)
  have c: "ed_from_addr d = [] \<longrightarrow> ''No from address specified'' \<in> set (validate fs d)"
    by (simp add: validate_eq)
  have d: "\<forall>p \<in> set (ed_attachments d).
      (\<not> path_exists fs p \<longrightarrow> ''Attachment not found: '' @ p \<in> set (validate fs d)) \<and>
      (path_exists fs p \<and> \<not> is_file fs p \<longrightarrow>
         ''Attachment is not a file: '' @ p \<in> set (validate fs d))"
  proof
    fix p assume p: "p \<in> set (ed_attachments d)"
    have "set (check_attachment fs [] p) \<subseteq> set (validate fs d)"
      using p by (auto simp: validate_eq)
    then show "(\<not> path_exists fs p \<longrightarrow> ''Attachment not found: '' @ p \<in> set (validate fs d)) \<and>
      (path_exists fs p \<and> \<not> is_file fs p \<longrightarrow>
         ''Attachment is not a file: '' @ p \<in> set (validate fs d))"
      by (auto simp: check_attachment_def)
  qed
  have e: "length (validate fs d) =
     (if ed_to d = [] then 1 else 0) + (if ed_from_addr d = [] then 1 else 0) +
     length (filter (\<lambda>p. \<not> (path_exists fs p \<and> is_file fs p)) (ed_attachments d))"
    by (simp add: validate_eq length_concat_check ok)
  from a b c d e show ?thesis by blast
qed

theorem validate_empty_iff_witness:
  "validate demo_fs
     \<lparr> ed_to = [], ed_cc = [''c@example.com''], ed_bcc = [], ed_from_addr = [],
       ed_from_name = None, ed_reply_to = None, ed_subject = ''s'', ed_body = ''b'',
       ed_attachments = [''/tmp/a.txt'', ''/tmp'', ''/nowhere''] \<rparr>
     = [''No recipients specified'', ''No from address specified'',
        ''Attachment is not a file: /tmp'', ''Attachment not found: /nowhere''] \<and>
   validate demo_fs
     \<lparr> ed_to = [''a@example.com''], ed_cc = [], ed_bcc = [], ed_from_addr = ''me@example.com'',
       ed_from_name = None, ed_reply_to = None, ed_subject = ''s'', ed_body = ''b'',
       ed_attachments = [''/tmp/a.txt''] \<rparr> = []"
  using validate_empty_iff [of demo_fs
     "\<lparr> ed_to = [''a@example.com''], ed_cc = [], ed_bcc = [], ed_from_addr = ''me@example.com'',
       ed_from_name = None, ed_reply_to = None, ed_subject = ''s'', ed_body = ''b'',
       ed_attachments = [''/tmp/a.txt''] \<rparr>"]
  by (simp add: validate_def check_attachment_def path_exists_def is_file_def demo_fs_def)

section \<open>The delivery engine\<close>


lemma port_loop_caught_prefix:
  assumes "\<forall>j<length ps. \<exists>e. send_via_smtp msg_from (ps ! j) (smtp_user srv) pw
             (smtp_use_tls srv) (net (i + j)) = Inl e \<and> caught e"
  shows "port_loop net msg_from srv pw i (ps @ qs) st =
         port_loop net msg_from srv pw (i + length ps) qs
           \<lparr> st_last_error =
               (if ps = [] then st_last_error st
                else Some (projl (send_via_smtp msg_from (last ps) (smtp_user srv) pw
                             (smtp_use_tls srv) (net (i + length ps - 1))))),
             st_attempts = st_attempts st,
             st_log = st_log st @ map Cycle ps \<rparr>"
  using assms
proof (induction ps arbitrary: i st)
  case Nil
  show ?case by (cases st) simp
next
  case (Cons p ps)
  from Cons.prems have "\<exists>e. send_via_smtp msg_from ((p # ps) ! 0) (smtp_user srv) pw
             (smtp_use_tls srv) (net (i + 0)) = Inl e \<and> caught e"
    by blast
  then obtain e where e: "send_via_smtp msg_from p (smtp_user srv) pw (smtp_use_tls srv) (net i) = Inl e"
    and c: "caught e" by auto
  have rest: "\<forall>j<length ps. \<exists>e. send_via_smtp msg_from (ps ! j) (smtp_user srv) pw
             (smtp_use_tls srv) (net (Suc i + j)) = Inl e \<and> caught e"
  proof (intro allI impI)
    fix j assume "j < length ps"
    then have "Suc j < length (p # ps)" by simp
    with Cons.prems have "\<exists>e. send_via_smtp msg_from ((p # ps) ! Suc j) (smtp_user srv) pw
             (smtp_use_tls srv) (net (i + Suc j)) = Inl e \<and> caught e" by blast
    then show "\<exists>e. send_via_smtp msg_from (ps ! j) (smtp_user srv) pw
             (smtp_use_tls srv) (net (Suc i + j)) = Inl e \<and> caught e" by simp
  qed
  show ?case
  proof (cases "ps = []")
    case True
    then show ?thesis using e c by (cases st) simp
  next
    case False
    then show ?thesis using e c Cons.IH [OF rest] by (cases st) simp
  qed
qed

lemma port_loop_all_caught:
  assumes "\<forall>j<length ps. \<exists>e. send_via_smtp msg_from (ps ! j) (smtp_user srv) pw
             (smtp_use_tls srv) (net j) = Inl e \<and> caught e"
  shows "port_loop net msg_from srv pw 0 ps st =
         (None, \<lparr> st_last_error =
                    (if ps = [] then st_last_error st
                     else Some (projl (send_via_smtp msg_from (last ps) (smtp_user srv) pw
                                  (smtp_use_tls srv) (net (length ps - 1))))),
                  st_attempts = st_attempts st,
                  st_log = st_log st @ map Cycle ps \<rparr>)"
  using port_loop_caught_prefix [of ps msg_from srv pw net 0 "[]" st] assms by simp


lemma attempt_loop_failed_prefix:
  assumes "\<forall>a \<in> set as. \<forall>j<length (smtp_ports srv).
             \<exists>e. send_via_smtp msg_from (smtp_ports srv ! j) (smtp_user srv) pw
                    (smtp_use_tls srv) (net a j) = Inl e \<and> caught e"
  shows "attempt_loop net msg_from srv pw retries (as @ bs) st =
         attempt_loop net msg_from srv pw retries bs
           \<lparr> st_last_error =
               (if as = [] \<or> smtp_ports srv = [] then st_last_error st
                else Some (projl (send_via_smtp msg_from (last (smtp_ports srv)) (smtp_user srv)
                             pw (smtp_use_tls srv)
                             (net (last as) (length (smtp_ports srv) - 1))))),
             st_attempts = (if as = [] then st_attempts st else int (last as) + 1),
             st_log = st_log st @ concat (map (attempt_events (smtp_ports srv) retries) as) \<rparr>"
  using assms
proof (induction as arbitrary: st)
  case Nil
  show ?case by (cases st) simp
next
  case (Cons a as)
  have this_attempt: "\<forall>j<length (smtp_ports srv).
             \<exists>e. send_via_smtp msg_from (smtp_ports srv ! j) (smtp_user srv) pw
                    (smtp_use_tls srv) (net a j) = Inl e \<and> caught e"
    using Cons.prems by simp
  have later: "\<forall>a \<in> set as. \<forall>j<length (smtp_ports srv).
             \<exists>e. send_via_smtp msg_from (smtp_ports srv ! j) (smtp_user srv) pw
                    (smtp_use_tls srv) (net a j) = Inl e \<and> caught e"
    using Cons.prems by simp
  note pl = port_loop_all_caught [of "smtp_ports srv" msg_from srv pw "net a", OF this_attempt]
  show ?case
  proof (cases "as = []")
    case True
    then show ?thesis by (cases st) (simp add: pl attempt_events_def)
  next
    case False
    then show ?thesis by (cases st) (simp add: pl Cons.IH [OF later] attempt_events_def)
  qed
qed


lemma total_wait_append: "total_wait (xs @ ys) = total_wait xs + total_wait ys"
  by (simp add: total_wait_def)

lemma total_wait_cycles: "total_wait (map Cycle ports) = 0"
  by (induction ports) (simp_all add: total_wait_def)

lemma total_wait_attempts:
  "total_wait (concat (map (attempt_events ports (int N)) [0 ..< M])) = (\<Sum>i<min M N. 2 ^ i)"
proof (induction M)
  case 0
  show ?case by (simp add: total_wait_def)
next
  case (Suc M)
  have "total_wait (attempt_events ports (int N) M) = (if M < N then 2 ^ M else 0)"
    by (simp add: attempt_events_def total_wait_append total_wait_cycles)
       (simp add: total_wait_def)
  then show ?case
    using Suc.IH by (simp add: total_wait_append min_def)
qed

lemma send_email_all_caught:
  assumes pw: "get_password run srv = Inr password"
    and fail: "\<forall>a\<le>N. \<forall>j<length (smtp_ports srv).
             \<exists>e. send_via_smtp msg_from (smtp_ports srv ! j) (smtp_user srv) password
                    (smtp_use_tls srv) (net a j) = Inl e \<and> caught e"
  shows "send_email run net msg_from srv (int N) =
     (Returned \<lparr> sr_success = False,
                  sr_message = ''Failed to send email after '' @ str_int (int N + 1) @
                    '' attempt(s): '' @
                    (if smtp_ports srv = [] then ''Unknown error''
                     else str_exn (projl (send_via_smtp msg_from (last (smtp_ports srv))
                            (smtp_user srv) password (smtp_use_tls srv)
                            (net N (length (smtp_ports srv) - 1))))),
                  sr_attempts = int N + 1,
                  sr_smtp_response = None \<rparr>,
      concat (map (attempt_events (smtp_ports srv) (int N)) [0 ..< Suc N]))"
proof -
  have r: "nat (int N + 1) = Suc N" by simp
  have f: "\<forall>a \<in> set [0 ..< Suc N]. \<forall>j<length (smtp_ports srv).
             \<exists>e. send_via_smtp msg_from (smtp_ports srv ! j) (smtp_user srv) password
                    (smtp_use_tls srv) (net a j) = Inl e \<and> caught e"
    using fail by simp
  have ne: "[0 ..< Suc N] \<noteq> []" and la: "last [0 ..< Suc N] = N"
    by simp_all
  have "attempt_loop net msg_from srv password (int N) ([0 ..< Suc N] @ [])
          \<lparr> st_last_error = None, st_attempts = 0, st_log = [] \<rparr> =
        (None,
         \<lparr> st_last_error =
             (if smtp_ports srv = [] then None
              else Some (projl (send_via_smtp msg_from (last (smtp_ports srv)) (smtp_user srv)
                           password (smtp_use_tls srv) (net N (length (smtp_ports srv) - 1))))),
           st_attempts = int N + 1,
           st_log = concat (map (attempt_events (smtp_ports srv) (int N)) [0 ..< Suc N]) \<rparr>)"
    unfolding attempt_loop_failed_prefix [of "[0 ..< Suc N]" srv msg_from password net "int N" "[]",
      OF f]
    using ne la by (simp del: upt_Suc)
  then have al: "attempt_loop net msg_from srv password (int N) [0 ..< Suc N]
          \<lparr> st_last_error = None, st_attempts = 0, st_log = [] \<rparr> =
        (None,
         \<lparr> st_last_error =
             (if smtp_ports srv = [] then None
              else Some (projl (send_via_smtp msg_from (last (smtp_ports srv)) (smtp_user srv)
                           password (smtp_use_tls srv) (net N (length (smtp_ports srv) - 1))))),
           st_attempts = int N + 1,
           st_log = concat (map (attempt_events (smtp_ports srv) (int N)) [0 ..< Suc N]) \<rparr>)"
    by simp
  show ?thesis
    unfolding send_email_def pw r
    by (simp add: al del: upt_Suc)
qed












text \<open>
  C2: for every retry budget \<open>N \<ge> 0\<close>, when the secret resolves and every port of every
  attempt \<open>0..N\<close> fails with an exception that \<open>send_email\<close> catches, the call returns
  failure with attempt count \<open>N + 1\<close> and the text of the last recorded error (of the last
  port in the last attempt; "Unknown error" if the port list is empty). Its log is, for
  each attempt \<open>0..N\<close> in turn, one cycle per port in order, followed by a sleep of
  \<open>2 ^ attempt\<close> only when the attempt is not the last: no sleep between ports, none after
  the final attempt, and \<open>N + 1\<close> outer attempts in all. The sleeps add up to the sum of
  \<open>2 ^ i\<close> for \<open>i < N\<close>.
\<close>

theorem all_ports_fail_uses_every_attempt:
  assumes pw: "get_password run srv = Inr password"
    and fail: "\<forall>a\<le>N. \<forall>j<length (smtp_ports srv).
             \<exists>e. send_via_smtp msg_from (smtp_ports srv ! j) (smtp_user srv) password
                    (smtp_use_tls srv) (net a j) = Inl e \<and> caught e"
  shows "send_email run net msg_from srv (int N) =
     (Returned \<lparr> sr_success = False,
                  sr_message = ''Failed to send email after '' @ str_int (int N + 1) @
                    '' attempt(s): '' @
                    (if smtp_ports srv = [] then ''Unknown error''
                     else str_exn (projl (send_via_smtp msg_from (last (smtp_ports srv))
                            (smtp_user srv) password (smtp_use_tls srv)
                            (net N (length (smtp_ports srv) - 1))))),
                  sr_attempts = int N + 1,
                  sr_smtp_response = None \<rparr>,
      concat (map (attempt_events (smtp_ports srv) (int N)) [0 ..< Suc N])) \<and>
    total_wait (snd (send_email run net msg_from srv (int N))) = (\<Sum>i<N. 2 ^ i)"
  using send_email_all_caught [OF pw fail] total_wait_attempts [of "smtp_ports srv" N "Suc N"]
  by (simp del: upt_Suc add: min_def)

theorem all_ports_fail_uses_every_attempt_witness:
  "send_email no_shell down_net (Some ''me@example.com'') plain_server 2 =
     (Returned \<lparr> sr_success = False,
                  sr_message = ''Failed to send email after 3 attempt(s): Connection refused'',
                  sr_attempts = 3,
                  sr_smtp_response = None \<rparr>,
      [Cycle 587, Cycle 465, Sleep 1, Cycle 587, Cycle 465, Sleep 2, Cycle 587, Cycle 465]) \<and>
   total_wait (snd (send_email no_shell down_net (Some ''me@example.com'') plain_server 2)) = 3"
proof -
  have pw: "get_password no_shell plain_server = Inr (Some ''secret123'')"
    by (simp add: get_password_def plain_server_def lower_def lower_chr_def char_of_def bit_Suc_0_iff)
  have fail: "\<forall>a\<le>2. \<forall>j<length (smtp_ports plain_server).
             \<exists>e. send_via_smtp (Some ''me@example.com'') (smtp_ports plain_server ! j)
                    (smtp_user plain_server) (Some ''secret123'')
                    (smtp_use_tls plain_server) (down_net a j) = Inl e \<and> caught e"
    by (simp add: send_via_smtp_def down_net_def down_session_def ok_session_def)
  have three: "(\<Sum>i<(2::nat). (2::int) ^ i) = 3"
    by (simp add: lessThan_Suc numeral_2_eq_2)
  have ups: "[0 ..< 3] = [0, 1, 2::nat]"
    by (simp add: upt_rec)
  show ?thesis
    using all_ports_fail_uses_every_attempt [OF pw fail] three
    by (simp add: ups attempt_events_def total_wait_def plain_server_def send_via_smtp_def
        down_net_def down_session_def ok_session_def str_int_def str_nat.simps char_of_def
        bit_Suc_0_iff)
qed






section \<open>Secret resolution\<close>












section \<open>Text lemmas\<close>

subsection \<open>Splitting and joining\<close>







subsection \<open>Stripping\<close>

















subsection \<open>Substrings\<close>





subsection \<open>One header line\<close>




subsection \<open>Values that survive a header line\<close>






subsection \<open>Address lists\<close>








subsection \<open>The From value\<close>



subsection \<open>The body\<close>


section \<open>The generated template, line by line\<close>

subsection \<open>Lines that the header loop skips\<close>





subsection \<open>Finding the separator\<close>




subsection \<open>The fixed lines of the template\<close>







subsection \<open>The selected identity and its lines\<close>













section \<open>Round trip through the template\<close>




lemma select_sample: "select_identity sample_config None = Some personal"
  by (simp add: select_identity_def get_default_identity_def get_identity_def sample_config_def
      personal_def Identity_init_def lower_def lower_chr_def char_of_def bit_Suc_0_iff)



section \<open>The Reply-To menu\<close>

lemma uncommented_reply_to_lines:
  "filter (\<lambda>l. \<not> prefix ''#'' l) (map (reply_to_line eff) rts) =
   map (\<lambda>rt. ''Reply-To: '' @ rt) (filter (\<lambda>rt. rt = eff) rts)"
  by (induction rts) (simp_all add: reply_to_line_def)

lemma filter_eq_distinct:
  "distinct xs \<Longrightarrow> x \<in> set xs \<Longrightarrow> filter (\<lambda>y. y = x) xs = [x]"
  by (induction xs) (auto simp: filter_empty_conv)

lemma filter_eq_absent:
  "x \<notin> set xs \<Longrightarrow> filter (\<lambda>y. y = x) xs = []"
  by (auto simp: filter_empty_conv)

text \<open>
  C7, amended: for a selected identity with more than one allowed reply-to address, the
  template has, between the From menu and the To line, the frame of the Reply-To menu
  with one Reply-To line per allowed address, in order; a line is uncommented exactly
  when its address equals the requested reply-to, or the first allowed address when no
  reply-to is requested. With pairwise different allowed addresses, exactly one line is
  uncommented when no reply-to is requested (the first address) or the requested one is
  allowed (that address); when the requested reply-to is not an allowed address, no line
  is uncommented.
\<close>

theorem reply_to_menu:
  assumes sel: "select_identity config identity_name = Some sel"
    and many: "1 < length (ident_reply_to sel)"
  shows "template_lines config recipients cc bcc identity_name reply_to subject body custom =
           [HEADER_INSTRUCTIONS, [], FROM_OPEN] @
           map (from_line (Some sel) custom) (cfg_identities config) @
           [FROM_CLOSE, [], REPLY_TO_OPEN (ident_name sel)] @
           map (reply_to_line (if truthy reply_to then the reply_to else hd (ident_reply_to sel)))
             (ident_reply_to sel) @
           [REPLY_TO_CLOSE, [],
            ''To: '' @ join '', '' (or_default recipients []),
            ''Cc: '' @ join '', '' (or_default cc []),
            ''Bcc: '' @ join '', '' (or_default bcc []),
            ''Subject: '' @ or_default subject [],
            [], TEMPLATE_SEPARATOR, [], (if truthy body then the body else [])] \<and>
         (distinct (ident_reply_to sel) \<longrightarrow>
            (\<not> truthy reply_to \<longrightarrow>
               filter (\<lambda>l. \<not> prefix ''#'' l)
                 (map (reply_to_line (hd (ident_reply_to sel))) (ident_reply_to sel)) =
               [''Reply-To: '' @ hd (ident_reply_to sel)]) \<and>
            (truthy reply_to \<and> the reply_to \<in> set (ident_reply_to sel) \<longrightarrow>
               filter (\<lambda>l. \<not> prefix ''#'' l)
                 (map (reply_to_line (the reply_to)) (ident_reply_to sel)) =
               [''Reply-To: '' @ the reply_to])) \<and>
         (truthy reply_to \<and> the reply_to \<notin> set (ident_reply_to sel) \<longrightarrow>
            filter (\<lambda>l. \<not> prefix ''#'' l)
              (map (reply_to_line (the reply_to)) (ident_reply_to sel)) = [])"
proof -
  from many have ne: "ident_reply_to sel \<noteq> []" by auto
  then have hd_in: "hd (ident_reply_to sel) \<in> set (ident_reply_to sel)" by simp
  have lines: "template_lines config recipients cc bcc identity_name reply_to subject body custom =
           [HEADER_INSTRUCTIONS, [], FROM_OPEN] @
           map (from_line (Some sel) custom) (cfg_identities config) @
           [FROM_CLOSE, [], REPLY_TO_OPEN (ident_name sel)] @
           map (reply_to_line (if truthy reply_to then the reply_to else hd (ident_reply_to sel)))
             (ident_reply_to sel) @
           [REPLY_TO_CLOSE, [],
            ''To: '' @ join '', '' (or_default recipients []),
            ''Cc: '' @ join '', '' (or_default cc []),
            ''Bcc: '' @ join '', '' (or_default bcc []),
            ''Subject: '' @ or_default subject [],
            [], TEMPLATE_SEPARATOR, [], (if truthy body then the body else [])]"
    using sel ne by (simp add: template_lines_def reply_to_section_def Let_def)
  show ?thesis
    using lines hd_in
    by (simp add: uncommented_reply_to_lines filter_eq_distinct filter_eq_absent)
qed


text \<open>
  C7, as stated, fails: the selected identity allows two reply-to addresses and the
  requested reply-to is neither of them. The template then has both Reply-To lines
  commented out, not the first one uncommented.
\<close>

theorem unlisted_reply_to_selects_nothing:
  "filter (\<lambda>l. prefix ''Reply-To:'' l \<or> prefix ''#Reply-To:'' l)
     (split_chr NL (generate_template sample_config None None None None
                      (Some ''other@example.com'') None None None)) =
   [''#Reply-To: user@example.com'', ''#Reply-To: alias@example.com'']"
  by code_simp

theorem reply_to_menu_witness:
  "filter (\<lambda>l. \<not> prefix ''#'' l)
     (map (reply_to_line ''alias@example.com'') [''user@example.com'', ''alias@example.com'']) =
   [''Reply-To: alias@example.com''] \<and>
   filter (\<lambda>l. \<not> prefix ''#'' l)
     (map (reply_to_line ''other@example.com'') [''user@example.com'', ''alias@example.com'']) = []"
  using reply_to_menu [OF select_sample [unfolded personal_def], of None None None "Some ''alias@example.com''" None None None]
    reply_to_menu [OF select_sample [unfolded personal_def], of None None None "Some ''other@example.com''" None None None]
  by simp

end
